theory Spec2Isabelle
  imports Complex_Main
begin

section \<open>The harmonics reducer (src/app/harmonics.ts)\<close>

text \<open>
  The reducer of the harmonics explorer keeps an immutable application state: a
  fundamental frequency, a list of harmonic partials with their sampled sine curves,
  a master gain and the combined curve. JavaScript numbers are modelled as \<open>real\<close>,
  Immutable.js lists as HOL lists, Immutable.js records as HOL records, and a thrown
  exception as the left summand of the result.
\<close>

subsection \<open>Data model\<close>

text \<open>
  \<open>PartialRecord\<close> (declared in ./partial) and \<open>AppStateRecord\<close> (declared in
  ./app-state): the fields are those that harmonics.ts reads and merges.
\<close>

record partial =
  frequency :: real
  amplitude :: real
  data :: "real list"

record appState =
  playing :: bool
  masterGain :: real
  fundamentalFrequency :: real
  partials :: "partial list"
  totalCurve :: "real list"

text \<open>
  An action carries a string tag and a payload of any shape. The payload shapes the
  reducer reads are a number (\<open>action.payload\<close>) and an object with the fields
  \<open>partial\<close> and \<open>amplitude\<close>.
\<close>

datatype payload =
    NoPayload
  | NumberPayload real
  | AmplitudePayload int real

record action =
  type :: string
  payload :: payload

text \<open>
  \<open>TypeError\<close> is the JavaScript exception of a property read on \<open>undefined\<close>.
  \<open>PayloadNotANumber\<close> marks the edge of the model: \<open>changeMasterGain\<close> and
  \<open>changeFundamentalFrequency\<close> declare their argument as \<open>number\<close>, and
  a state holding anything else in a numeric field is not represented.
\<close>

datatype error = TypeError | PayloadNotANumber

subsection \<open>Action definitions and constants\<close>

definition START :: string where
  "START = ''START''"

definition STOP :: string where
  "STOP = ''STOP''"

definition CHANGE_FUNDAMENTAL_FREQUENCY :: string where
  "CHANGE_FUNDAMENTAL_FREQUENCY = ''CHANGE_FUNDAMENTAL_FREQUENCY''"

definition CHANGE_AMPLITUDE :: string where
  "CHANGE_AMPLITUDE = ''CHANGE_AMPLITUDE''"

definition CHANGE_MASTER_GAIN :: string where
  "CHANGE_MASTER_GAIN = ''CHANGE_TOTAL_GAIN''"

definition SWITCH_TO_PRESET :: string where
  "SWITCH_TO_PRESET = ''SWITCH_TO_PRESET''"

definition HARMONICS_COUNT :: nat where
  "HARMONICS_COUNT = 13"

definition SAMPLE_COUNT :: nat where
  "SAMPLE_COUNT = 650"

definition SAMPLE_RATE :: real where
  "SAMPLE_RATE = 44100"

subsection \<open>Collaborators imported by harmonics.ts\<close>

text \<open>
  Modelled from the spec: \<open>calculateSineCurve\<close> of ./curves is not among the sources.
  Spec 4.1: sample \<open>i\<close> (0-indexed) is \<open>amplitude * sin(2\<pi> * frequency * i / sampleRate)\<close>,
  for \<open>sampleCount\<close> samples.
\<close>

definition calculateSineCurve :: "real \<Rightarrow> real \<Rightarrow> nat \<Rightarrow> real \<Rightarrow> real list" where
  "calculateSineCurve freq ampl sampleCount sampleRate =
     map (\<lambda>i. ampl * sin (2 * pi * freq * real i / sampleRate)) [0..<sampleCount]"

text \<open>
  Modelled from the spec: \<open>combineCurves\<close> of ./curves is not among the sources.
  Spec 4.2: \<open>result[i] = gain * sum_over_curves(curve[i])\<close> for \<open>i\<close> in \<open>[0, L)\<close>,
  where \<open>L\<close> is the common length of the curves; no curves give the empty sequence.
\<close>

definition combineCurves :: "real list list \<Rightarrow> real \<Rightarrow> real list" where
  "combineCurves curves gain =
     (case curves of
        [] \<Rightarrow> []
      | c # _ \<Rightarrow> map (\<lambda>i. gain * (\<Sum>curve\<leftarrow>curves. curve ! i)) [0..<length c])"

text \<open>
  Modelled from the spec: \<open>partialFactory\<close> of ./partial and \<open>appStateFactory\<close> of
  ./app-state are not among the sources. They build a record from the given fields; the
  default of the field left out (\<open>data\<close>, \<open>totalCurve\<close>) is taken as the empty list.
  \<open>makeInitialState\<close> overwrites both before the state is returned.
\<close>

definition partialFactory :: "real \<Rightarrow> real \<Rightarrow> partial" where
  "partialFactory freq ampl = \<lparr>frequency = freq, amplitude = ampl, data = []\<rparr>"

definition appStateFactory :: "bool \<Rightarrow> real \<Rightarrow> real \<Rightarrow> partial list \<Rightarrow> appState" where
  "appStateFactory pl gain fundamental ps =
     \<lparr>playing = pl, masterGain = gain, fundamentalFrequency = fundamental,
      partials = ps, totalCurve = []\<rparr>"

text \<open>
  Immutable.js \<open>List.get(index, notSetValue)\<close>: a negative index counts back from the end
  of the list (\<open>wrapIndex\<close>); an index that is still out of range gives the
  not-set value, here \<open>None\<close>.
\<close>

definition wrapIndex :: "'a list \<Rightarrow> int \<Rightarrow> int" where
  "wrapIndex iter index = (if index < 0 then int (length iter) + index else index)"

definition List_get :: "'a list \<Rightarrow> int \<Rightarrow> 'a option" where
  "List_get xs index =
     (let i = wrapIndex xs index
      in if 0 \<le> i \<and> i < int (length xs) then Some (xs ! nat i) else None)"

subsection \<open>The functions of harmonics.ts\<close>

definition makePartial :: "real \<Rightarrow> nat \<Rightarrow> partial" where
  "makePartial fundamental partialNumber =
     partialFactory (fundamental * real partialNumber) (if partialNumber = 1 then 1 else 0)"

definition updateCurve :: "partial \<Rightarrow> partial" where
  "updateCurve p =
     p\<lparr>data := calculateSineCurve (frequency p) (amplitude p) SAMPLE_COUNT SAMPLE_RATE\<rparr>"

definition updateTotalCurve :: "appState \<Rightarrow> appState" where
  "updateTotalCurve state =
     state\<lparr>totalCurve := combineCurves (map data (partials state)) (masterGain state)\<rparr>"

definition makeInitialState :: appState where
  "makeInitialState =
     (let fundamental = 261.63;
          ps = map updateCurve
                 (map (\<lambda>partialNumber. makePartial fundamental partialNumber)
                    [1..<HARMONICS_COUNT + 1])
      in updateTotalCurve (appStateFactory False 0.5 fundamental ps))"

definition setPlayState :: "appState \<Rightarrow> bool \<Rightarrow> appState" where
  "setPlayState state pl = state\<lparr>playing := pl\<rparr>"

definition changeAmplitudeForPartial :: "partial \<Rightarrow> real \<Rightarrow> partial" where
  "changeAmplitudeForPartial p ampl = updateCurve (p\<lparr>amplitude := ampl\<rparr>)"

text \<open>
  \<open>state.updateIn(['partials', partialNumber], updater)\<close> reads the list entry with
  \<open>List.get\<close>, applies the updater and stores the result under the same key. On a key
  that is not set the updater receives \<open>undefined\<close>, and \<open>changeAmplitudeForPartial\<close>
  throws a TypeError at \<open>partial.merge\<close>.
\<close>

definition changeAmplitude :: "appState \<Rightarrow> int \<Rightarrow> real \<Rightarrow> error + appState" where
  "changeAmplitude state partialNumber ampl =
     (case List_get (partials state) partialNumber of
        None \<Rightarrow> Inl TypeError
      | Some p \<Rightarrow>
          Inr (updateTotalCurve
                 (state\<lparr>partials :=
                    (partials state)[nat (wrapIndex (partials state) partialNumber) :=
                                       changeAmplitudeForPartial p ampl]\<rparr>)))"

definition setPartialFrequencies :: "partial list \<Rightarrow> real \<Rightarrow> partial list" where
  "setPartialFrequencies ps fundamental =
     map (\<lambda>(index, p). updateCurve (p\<lparr>frequency := fundamental * real (index + 1)\<rparr>))
       (enumerate 0 ps)"

definition changeFundamentalFrequency :: "appState \<Rightarrow> real \<Rightarrow> appState" where
  "changeFundamentalFrequency state fundamental =
     updateTotalCurve
       (state\<lparr>fundamentalFrequency := fundamental,
              partials := setPartialFrequencies (partials state) fundamental\<rparr>)"

definition changeMasterGain :: "appState \<Rightarrow> real \<Rightarrow> appState" where
  "changeMasterGain state gain = updateTotalCurve (state\<lparr>masterGain := gain\<rparr>)"

text \<open>
  The reducer. A missing state (\<open>None\<close>) takes the default \<open>makeInitialState()\<close>. The
  \<open>switch\<close> compares the tag with the constants in the order of the source.
  \<open>action.payload.partial\<close> on a missing payload throws a TypeError; on a number it is
  \<open>undefined\<close>, a key that is not set in the list.
\<close>

definition harmonicsReducer :: "appState option \<Rightarrow> action \<Rightarrow> error + appState" where
  "harmonicsReducer stateArg act =
     (let state = (case stateArg of None \<Rightarrow> makeInitialState | Some s \<Rightarrow> s)
      in if type act = START then Inr (setPlayState state True)
         else if type act = STOP then Inr (setPlayState state False)
         else if type act = CHANGE_AMPLITUDE then
           (case payload act of
              AmplitudePayload partialNumber ampl \<Rightarrow> changeAmplitude state partialNumber ampl
            | _ \<Rightarrow> Inl TypeError)
         else if type act = CHANGE_MASTER_GAIN then
           (case payload act of
              NumberPayload gain \<Rightarrow> Inr (changeMasterGain state gain)
            | _ \<Rightarrow> Inl PayloadNotANumber)
         else if type act = CHANGE_FUNDAMENTAL_FREQUENCY then
           (case payload act of
              NumberPayload fundamental \<Rightarrow> Inr (changeFundamentalFrequency state fundamental)
            | _ \<Rightarrow> Inl PayloadNotANumber)
         else Inr state)"

text \<open>
  A sequence of dispatched actions: each action is reduced on the state the previous
  one returned, and a thrown exception ends the run.
\<close>

fun reduceAll :: "appState \<Rightarrow> action list \<Rightarrow> error + appState" where
  "reduceAll state [] = Inr state"
| "reduceAll state (act # acts) =
     (case harmonicsReducer (Some state) act of
        Inl e \<Rightarrow> Inl e
      | Inr state' \<Rightarrow> reduceAll state' acts)"

text \<open>
  The mutations of the reducer's interface: an amplitude change names a partial index in
  \<open>[0, HARMONICS_COUNT)\<close>, a gain or frequency change carries a number; any other tag
  is unrestricted.
\<close>

definition inRange :: "action \<Rightarrow> bool" where
  "inRange act =
     (if type act = CHANGE_AMPLITUDE then
        (case payload act of
           AmplitudePayload partialNumber _ \<Rightarrow> 0 \<le> partialNumber \<and> partialNumber < int HARMONICS_COUNT
         | _ \<Rightarrow> False)
      else if type act = CHANGE_MASTER_GAIN \<or> type act = CHANGE_FUNDAMENTAL_FREQUENCY then
        (case payload act of NumberPayload _ \<Rightarrow> True | _ \<Rightarrow> False)
      else True)"

text \<open>
  The consistency of a state: every partial is the harmonic of its index, every curve is
  the one the sampler gives for the partial's frequency and amplitude, and the total
  curve is the combination of the curves under the master gain.
\<close>

definition consistent :: "appState \<Rightarrow> bool" where
  "consistent s =
     (length (partials s) = HARMONICS_COUNT \<and>
      (\<forall>i<length (partials s).
         frequency (partials s ! i) = fundamentalFrequency s * (real i + 1) \<and>
         data (partials s ! i) =
           calculateSineCurve (frequency (partials s ! i)) (amplitude (partials s ! i))
             SAMPLE_COUNT SAMPLE_RATE) \<and>
      totalCurve s = combineCurves (map data (partials s)) (masterGain s))"

text \<open>
  A run through the scenarios of the reducer: start, an amplitude change of the third
  harmonic, a retuning to 440 Hz, a gain change, an unknown tag and stop.
\<close>

definition exampleRun :: "action list" where
  "exampleRun =
     [\<lparr>type = START, payload = NoPayload\<rparr>,
      \<lparr>type = CHANGE_AMPLITUDE, payload = AmplitudePayload 2 0.5\<rparr>,
      \<lparr>type = CHANGE_FUNDAMENTAL_FREQUENCY, payload = NumberPayload 440\<rparr>,
      \<lparr>type = CHANGE_MASTER_GAIN, payload = NumberPayload 0.2\<rparr>,
      \<lparr>type = ''RESET'', payload = NoPayload\<rparr>,
      \<lparr>type = STOP, payload = NoPayload\<rparr>]"

text \<open>
  The state after CHANGE_MASTER_GAIN with the gain 0 on the initial state.
\<close>

definition mutedState :: appState where
  "mutedState = changeMasterGain makeInitialState 0"

section \<open>Auxiliary facts\<close>

lemmas tag_defs =
  START_def STOP_def CHANGE_FUNDAMENTAL_FREQUENCY_def CHANGE_AMPLITUDE_def
  CHANGE_MASTER_GAIN_def SWITCH_TO_PRESET_def

subsection \<open>Retuning a list of partials\<close>

lemma length_setPartialFrequencies:
  "length (setPartialFrequencies ps f) = length ps"
  by (simp add: setPartialFrequencies_def)

lemma nth_setPartialFrequencies:
  "i < length ps \<Longrightarrow>
   setPartialFrequencies ps f ! i = updateCurve ((ps ! i)\<lparr>frequency := f * (real i + 1)\<rparr>)"
  by (simp add: setPartialFrequencies_def nth_enumerate_eq add.commute)

subsection \<open>The initial state\<close>

lemma length_partials_initial:
  "length (partials makeInitialState) = 13"
  by (simp add: makeInitialState_def Let_def updateTotalCurve_def appStateFactory_def
      HARMONICS_COUNT_def)

lemma nth_partials_initial:
  "i < 13 \<Longrightarrow> partials makeInitialState ! i = updateCurve (makePartial 261.63 (i + 1))"
  by (simp add: makeInitialState_def Let_def updateTotalCurve_def appStateFactory_def
      HARMONICS_COUNT_def)

lemma consistent_initial: "consistent makeInitialState"
proof -
  have tc: "totalCurve makeInitialState =
        combineCurves (map data (partials makeInitialState)) (masterGain makeInitialState)"
    by (simp add: makeInitialState_def Let_def updateTotalCurve_def appStateFactory_def)
  have ff: "fundamentalFrequency makeInitialState = 261.63"
    by (simp add: makeInitialState_def Let_def updateTotalCurve_def appStateFactory_def)
  have "frequency (partials makeInitialState ! i) =
          fundamentalFrequency makeInitialState * (real i + 1) \<and>
        data (partials makeInitialState ! i) =
          calculateSineCurve (frequency (partials makeInitialState ! i))
            (amplitude (partials makeInitialState ! i)) SAMPLE_COUNT SAMPLE_RATE"
    if "i < 13" for i
    unfolding ff nth_partials_initial [OF that]
    by (simp add: updateCurve_def makePartial_def partialFactory_def algebra_simps)
  with tc show ?thesis
    by (simp add: consistent_def length_partials_initial HARMONICS_COUNT_def)
qed

subsection \<open>Reading and updating a list entry\<close>

lemma List_get_in_range:
  "0 \<le> k \<Longrightarrow> k < int (length xs) \<Longrightarrow> List_get xs k = Some (xs ! nat k)"
  by (simp add: List_get_def wrapIndex_def)

lemma wrapIndex_in_range: "0 \<le> k \<Longrightarrow> wrapIndex xs k = k"
  by (simp add: wrapIndex_def)

lemma List_get_wraps:
  "- int (length xs) \<le> k \<Longrightarrow> k < 0 \<Longrightarrow>
   List_get xs k = Some (xs ! nat (int (length xs) + k))"
  by (simp add: List_get_def wrapIndex_def)

lemma List_get_out_of_range:
  "k < - int (length xs) \<or> int (length xs) \<le> k \<Longrightarrow> List_get xs k = None"
  by (auto simp: List_get_def wrapIndex_def)

lemma changeAmplitude_in_range:
  "0 \<le> k \<Longrightarrow> k < int (length (partials s)) \<Longrightarrow>
   changeAmplitude s k a =
     Inr (updateTotalCurve
            (s\<lparr>partials := (partials s)[nat k := changeAmplitudeForPartial (partials s ! nat k) a]\<rparr>))"
  by (simp add: changeAmplitude_def List_get_in_range wrapIndex_in_range)

lemma changeAmplitude_wraps:
  assumes "- int (length (partials s)) \<le> k" and "k < 0"
  shows "changeAmplitude s k a = changeAmplitude s (int (length (partials s)) + k) a"
proof -
  let ?n = "int (length (partials s))"
  from assms have "0 \<le> ?n + k" "?n + k < ?n" by simp_all
  then have "changeAmplitude s (?n + k) a =
     Inr (updateTotalCurve
            (s\<lparr>partials := (partials s)[nat (?n + k) :=
                changeAmplitudeForPartial (partials s ! nat (?n + k)) a]\<rparr>))"
    by (rule changeAmplitude_in_range)
  moreover from assms have "changeAmplitude s k a =
     Inr (updateTotalCurve
            (s\<lparr>partials := (partials s)[nat (?n + k) :=
                changeAmplitudeForPartial (partials s ! nat (?n + k)) a]\<rparr>))"
    by (simp add: changeAmplitude_def List_get_wraps) (simp add: wrapIndex_def)
  ultimately show ?thesis by simp
qed

subsection \<open>The combined curve\<close>

lemma length_combineCurves:
  "length (combineCurves curves g) = (case curves of [] \<Rightarrow> 0 | c # _ \<Rightarrow> length c)"
  by (simp add: combineCurves_def split: list.splits)

lemma nth_combineCurves:
  "i < length (combineCurves curves g) \<Longrightarrow>
   combineCurves curves g ! i = g * (\<Sum>curve\<leftarrow>curves. curve ! i)"
  by (cases curves) (simp_all add: combineCurves_def)

lemma combineCurves_rescale:
  assumes "i < length (combineCurves curves g)" and "g0 \<noteq> 0"
  shows "combineCurves curves g ! i = (g / g0) * (combineCurves curves g0 ! i)"
proof -
  from assms(1) have "i < length (combineCurves curves g0)"
    by (simp add: length_combineCurves)
  with assms show ?thesis
    by (simp add: nth_combineCurves)
qed

text \<open>
  The samples of the initial state: only the fundamental sounds, so the unscaled sum of
  the partials is its sine curve, which is positive at the sample 1.
\<close>

lemma partials_initial_explicit:
  "partials makeInitialState =
     map (\<lambda>n. updateCurve (makePartial 261.63 n)) [1, 2, 3, 4, 5, 6, 7, 8, 9, 10, 11, 12, 13]"
proof -
  have "[1..<14] = [1, 2, 3, 4, 5, 6, 7, 8, 9, 10, 11, 12, 13::nat]"
    by (simp add: upt_conv_Cons)
  then show ?thesis
    by (simp add: makeInitialState_def Let_def updateTotalCurve_def appStateFactory_def
        HARMONICS_COUNT_def)
qed

lemma nth_calculateSineCurve:
  "j < n \<Longrightarrow> calculateSineCurve f a n r ! j = a * sin (2 * pi * f * real j / r)"
  by (simp add: calculateSineCurve_def)

lemma data_initial_nth:
  "j < SAMPLE_COUNT \<Longrightarrow>
   data (updateCurve (makePartial f n)) ! j =
     (if n = 1 then sin (2 * pi * f * real j / SAMPLE_RATE) else 0)"
  by (simp add: updateCurve_def makePartial_def partialFactory_def nth_calculateSineCurve)

lemma unscaled_sum_initial:
  assumes "j < SAMPLE_COUNT"
  shows "(\<Sum>curve\<leftarrow>map data (partials makeInitialState). curve ! j) =
     sin (2 * pi * 261.63 * real j / SAMPLE_RATE)"
  unfolding partials_initial_explicit
  by (simp add: data_initial_nth [OF assms])

lemma length_totalCurve_gain:
  "length (combineCurves (map data (partials makeInitialState)) g) = SAMPLE_COUNT"
  unfolding partials_initial_explicit
  by (simp add: length_combineCurves updateCurve_def calculateSineCurve_def)

lemma first_sample_positive: "0 < sin (2 * pi * 261.63 * real (1::nat) / SAMPLE_RATE)"
proof (rule sin_gt_zero)
  show "0 < 2 * pi * 261.63 * real (1::nat) / SAMPLE_RATE"
    by (simp add: SAMPLE_RATE_def)
  have "2 * pi * 261.63 * real (1::nat) / SAMPLE_RATE = pi * (2 * 261.63 / 44100)"
    by (simp add: SAMPLE_RATE_def)
  also have "\<dots> < pi * 1"
    by (rule mult_strict_left_mono) simp_all
  finally show "2 * pi * 261.63 * real (1::nat) / SAMPLE_RATE < pi" by simp
qed

lemma totalCurve_initial_second_sample:
  "totalCurve makeInitialState ! 1 = 0.5 * sin (2 * pi * 261.63 * real (1::nat) / SAMPLE_RATE)"
proof -
  have tc: "totalCurve makeInitialState = combineCurves (map data (partials makeInitialState)) 0.5"
    by (simp add: makeInitialState_def Let_def updateTotalCurve_def appStateFactory_def)
  have "1 < length (combineCurves (map data (partials makeInitialState)) 0.5)"
    unfolding length_totalCurve_gain by (simp add: SAMPLE_COUNT_def)
  then have "combineCurves (map data (partials makeInitialState)) 0.5 ! 1 =
      0.5 * (\<Sum>curve\<leftarrow>map data (partials makeInitialState). curve ! 1)"
    by (rule nth_combineCurves)
  also have "(\<Sum>curve\<leftarrow>map data (partials makeInitialState). curve ! 1) =
      sin (2 * pi * 261.63 * real (1::nat) / SAMPLE_RATE)"
    by (rule unscaled_sum_initial) (simp add: SAMPLE_COUNT_def)
  finally show ?thesis
    unfolding tc .
qed

subsection \<open>Every transition keeps a state consistent\<close>

lemma changeAmplitude_consistent:
  assumes "consistent s" and "changeAmplitude s k a = Inr s'"
  shows "consistent s'"
proof -
  let ?ps = "partials s"
  let ?j = "nat (wrapIndex ?ps k)"
  let ?q = "changeAmplitudeForPartial (?ps ! ?j) a"
  from assms(2) obtain p where get: "List_get ?ps k = Some p"
    and s1: "s' = updateTotalCurve (s\<lparr>partials := ?ps[?j := changeAmplitudeForPartial p a]\<rparr>)"
    by (auto simp: changeAmplitude_def split: option.splits)
  from get have j: "?j < length ?ps" and p: "p = ?ps ! ?j"
    by (auto simp: List_get_def Let_def split: if_splits)
  have s': "s' = updateTotalCurve (s\<lparr>partials := ?ps[?j := ?q]\<rparr>)"
    using s1 p by simp
  have inv: "frequency (?ps ! i) = fundamentalFrequency s * (real i + 1) \<and>
        data (?ps ! i) =
          calculateSineCurve (frequency (?ps ! i)) (amplitude (?ps ! i)) SAMPLE_COUNT SAMPLE_RATE"
    if "i < length ?ps" for i
    using assms(1) that unfolding consistent_def by blast
  have q: "frequency ?q = fundamentalFrequency s * (real ?j + 1) \<and>
        data ?q = calculateSineCurve (frequency ?q) (amplitude ?q) SAMPLE_COUNT SAMPLE_RATE"
    using inv [OF j] by (simp add: changeAmplitudeForPartial_def updateCurve_def)
  have "frequency (?ps[?j := ?q] ! i) = fundamentalFrequency s * (real i + 1) \<and>
        data (?ps[?j := ?q] ! i) =
          calculateSineCurve (frequency (?ps[?j := ?q] ! i)) (amplitude (?ps[?j := ?q] ! i))
            SAMPLE_COUNT SAMPLE_RATE"
    if "i < length ?ps" for i
  proof (cases "i = ?j")
    case True
    with j q show ?thesis by simp
  next
    case False
    with inv [OF that] show ?thesis by simp
  qed
  moreover from assms(1) have "length ?ps = HARMONICS_COUNT"
    by (simp add: consistent_def)
  ultimately show ?thesis
    unfolding s' consistent_def by (simp add: updateTotalCurve_def)
qed

lemma changeMasterGain_consistent:
  "consistent s \<Longrightarrow> consistent (changeMasterGain s g)"
  by (simp add: consistent_def changeMasterGain_def updateTotalCurve_def)

lemma changeFundamentalFrequency_consistent:
  "consistent s \<Longrightarrow> consistent (changeFundamentalFrequency s f)"
  by (simp add: consistent_def changeFundamentalFrequency_def updateTotalCurve_def
      length_setPartialFrequencies nth_setPartialFrequencies updateCurve_def)

lemma setPlayState_consistent:
  "consistent s \<Longrightarrow> consistent (setPlayState s b)"
  by (simp add: consistent_def setPlayState_def)

lemma harmonicsReducer_consistent:
  assumes "consistent s" and "harmonicsReducer (Some s) act = Inr s'"
  shows "consistent s'"
  using assms
  by (auto simp: harmonicsReducer_def setPlayState_consistent changeMasterGain_consistent
      changeFundamentalFrequency_consistent
      split: if_splits payload.splits dest: changeAmplitude_consistent)

lemma reduceAll_consistent:
  "consistent s \<Longrightarrow> reduceAll s acts = Inr s' \<Longrightarrow> consistent s'"
proof (induction acts arbitrary: s)
  case Nil
  then show ?case by simp
next
  case (Cons act acts)
  then show ?case
    by (auto split: sum.splits dest: harmonicsReducer_consistent)
qed

subsection \<open>Mutations of the interface never throw\<close>

lemma harmonicsReducer_inRange:
  assumes "length (partials s) = HARMONICS_COUNT" and "inRange act"
  shows "\<exists>s'. harmonicsReducer (Some s) act = Inr s'"
  using assms
  by (auto simp: harmonicsReducer_def inRange_def changeAmplitude_in_range
      split: if_splits payload.splits)

lemma reduceAll_inRange:
  "consistent s \<Longrightarrow> \<forall>act\<in>set acts. inRange act \<Longrightarrow> \<exists>s'. reduceAll s acts = Inr s'"
proof (induction acts arbitrary: s)
  case Nil
  then show ?case by simp
next
  case (Cons act acts)
  from Cons.prems have "length (partials s) = HARMONICS_COUNT"
    by (simp add: consistent_def)
  with Cons.prems obtain s1 where s1: "harmonicsReducer (Some s) act = Inr s1"
    using harmonicsReducer_inRange by force
  with Cons.prems have "consistent s1"
    using harmonicsReducer_consistent by blast
  with Cons.IH Cons.prems obtain s' where "reduceAll s1 acts = Inr s'"
    by force
  with s1 show ?case by simp
qed

section \<open>The claims\<close>

subsection \<open>Consistency of reachable states\<close>

text \<open>
  C1: every state that a sequence of mutations reaches from the initial state has 13
  partials; the partial at index \<open>i\<close> has the frequency \<open>fundamentalFrequency * (i + 1)\<close>,
  its \<open>data\<close> is the sampler applied to its frequency, its amplitude, 650 and 44100, and
  \<open>totalCurve\<close> is the combiner applied to the data of all partials and \<open>masterGain\<close>.
  A sequence of START, STOP, CHANGE_AMPLITUDE with an index in range,
  CHANGE_FUNDAMENTAL_FREQUENCY, CHANGE_MASTER_GAIN and unrecognized mutations does reach a
  state: no step of it throws.
\<close>

theorem reachable_states_consistent:
  "(reduceAll makeInitialState acts = Inr s \<longrightarrow>
      length (partials s) = 13 \<and>
      (\<forall>i<length (partials s).
         frequency (partials s ! i) = fundamentalFrequency s * (real i + 1) \<and>
         data (partials s ! i) =
           calculateSineCurve (frequency (partials s ! i)) (amplitude (partials s ! i))
             650 44100) \<and>
      totalCurve s = combineCurves (map data (partials s)) (masterGain s)) \<and>
   ((\<forall>act\<in>set acts. inRange act) \<longrightarrow> (\<exists>s'. reduceAll makeInitialState acts = Inr s'))"
proof (rule conjI; rule impI)
  assume "reduceAll makeInitialState acts = Inr s"
  then have "consistent s"
    using consistent_initial reduceAll_consistent by blast
  then show "length (partials s) = 13 \<and>
      (\<forall>i<length (partials s).
         frequency (partials s ! i) = fundamentalFrequency s * (real i + 1) \<and>
         data (partials s ! i) =
           calculateSineCurve (frequency (partials s ! i)) (amplitude (partials s ! i))
             650 44100) \<and>
      totalCurve s = combineCurves (map data (partials s)) (masterGain s)"
    by (simp add: consistent_def HARMONICS_COUNT_def SAMPLE_COUNT_def SAMPLE_RATE_def)
next
  assume "\<forall>act\<in>set acts. inRange act"
  with consistent_initial show "\<exists>s'. reduceAll makeInitialState acts = Inr s'"
    by (rule reduceAll_inRange)
qed

text \<open>
  The example run is such a sequence; the state it reaches has the thirteenth harmonic at
  13 times the fundamental and a total curve that is the combination of its partials.
\<close>

theorem reachable_states_consistent_witness:
  "list_all inRange exampleRun \<and>
   (\<exists>s. reduceAll makeInitialState exampleRun = Inr s \<and>
      length (partials s) = 13 \<and>
      frequency (partials s ! 12) = fundamentalFrequency s * 13 \<and>
      totalCurve s = combineCurves (map data (partials s)) (masterGain s))"
proof -
  have l: "list_all inRange exampleRun"
    by (simp add: exampleRun_def inRange_def tag_defs HARMONICS_COUNT_def)
  then have h: "\<forall>act\<in>set exampleRun. inRange act"
    by (simp add: list_all_iff)
  with reachable_states_consistent [of exampleRun] obtain s
    where run: "reduceAll makeInitialState exampleRun = Inr s"
    by blast
  with reachable_states_consistent [of exampleRun s]
  have len: "length (partials s) = 13"
    and each: "\<forall>i<length (partials s).
         frequency (partials s ! i) = fundamentalFrequency s * (real i + 1)"
    and tc: "totalCurve s = combineCurves (map data (partials s)) (masterGain s)"
    by blast+
  from len have "12 < length (partials s)" by simp
  with each have "frequency (partials s ! 12) = fundamentalFrequency s * (real 12 + 1)"
    by blast
  then have "frequency (partials s ! 12) = fundamentalFrequency s * 13"
    by simp
  with l run len tc show ?thesis by blast
qed

subsection \<open>The initial state\<close>

text \<open>
  C2: \<open>makeInitialState()\<close> has \<open>playing = false\<close>, \<open>masterGain = 0.5\<close>,
  \<open>fundamentalFrequency = 261.63\<close> and exactly 13 partials; the partial at index \<open>i\<close>
  has the frequency \<open>261.63 * (i + 1)\<close>, the amplitude 1 at index 0 and 0 at the indices
  1 to 12, and the data the sampler gives for them; \<open>totalCurve\<close> is the combiner applied
  to the data of the partials and the gain 0.5.
\<close>

theorem makeInitialState_fields:
  "playing makeInitialState = False \<and>
   masterGain makeInitialState = 0.5 \<and>
   fundamentalFrequency makeInitialState = 261.63 \<and>
   length (partials makeInitialState) = 13 \<and>
   (\<forall>i<13.
      frequency (partials makeInitialState ! i) = 261.63 * (real i + 1) \<and>
      amplitude (partials makeInitialState ! i) = (if i = 0 then 1 else 0) \<and>
      data (partials makeInitialState ! i) =
        calculateSineCurve (261.63 * (real i + 1)) (if i = 0 then 1 else 0)
          SAMPLE_COUNT SAMPLE_RATE) \<and>
   totalCurve makeInitialState =
     combineCurves (map data (partials makeInitialState)) 0.5"
proof -
  have "playing makeInitialState = False" "masterGain makeInitialState = 0.5"
    "fundamentalFrequency makeInitialState = 261.63"
    "totalCurve makeInitialState = combineCurves (map data (partials makeInitialState)) 0.5"
    by (simp_all add: makeInitialState_def Let_def updateTotalCurve_def appStateFactory_def)
  moreover have "frequency (partials makeInitialState ! i) = 261.63 * (real i + 1) \<and>
      amplitude (partials makeInitialState ! i) = (if i = 0 then 1 else 0) \<and>
      data (partials makeInitialState ! i) =
        calculateSineCurve (261.63 * (real i + 1)) (if i = 0 then 1 else 0)
          SAMPLE_COUNT SAMPLE_RATE" if "i < 13" for i
    unfolding nth_partials_initial [OF that]
    by (simp add: updateCurve_def makePartial_def partialFactory_def algebra_simps)
  ultimately show ?thesis
    using length_partials_initial by blast
qed

text \<open>
  At the indices 0, 1 and 12: the fundamental sounds at 261.63 Hz, the second and the
  thirteenth harmonic are silent, and the thirteenth lies at 3401.19 Hz.
\<close>

theorem makeInitialState_fields_witness:
  "frequency (partials makeInitialState ! 0) = 261.63 \<and>
   amplitude (partials makeInitialState ! 0) = 1 \<and>
   amplitude (partials makeInitialState ! 1) = 0 \<and>
   frequency (partials makeInitialState ! 12) = 3401.19 \<and>
   amplitude (partials makeInitialState ! 12) = 0"
proof -
  have a: "(0::nat) < 13" and b: "(1::nat) < 13" and c: "(12::nat) < 13" by simp_all
  from makeInitialState_fields have
    "\<forall>i<13. frequency (partials makeInitialState ! i) = 261.63 * (real i + 1) \<and>
      amplitude (partials makeInitialState ! i) = (if i = 0 then 1 else 0)"
    by blast
  from this a b c show ?thesis by fastforce
qed

subsection \<open>Changing the fundamental frequency\<close>

text \<open>
  C3: CHANGE_FUNDAMENTAL_FREQUENCY with the number \<open>f\<close> sets \<open>fundamentalFrequency\<close> to
  \<open>f\<close>; the list of partials keeps its length and order, and the partial at index \<open>i\<close>
  gets the frequency \<open>f * (i + 1)\<close>, keeps its amplitude and gets the data sampled at the
  new frequency; \<open>totalCurve\<close> is combined anew from the new partials under the unchanged
  \<open>masterGain\<close>. With \<open>f = 440\<close> on 13 partials the frequencies at the indices 0, 1 and
  12 are 440, 880 and 5720.
\<close>

theorem changeFundamentalFrequency_retunes:
  "\<exists>s'. harmonicsReducer (Some s)
           \<lparr>type = CHANGE_FUNDAMENTAL_FREQUENCY, payload = NumberPayload f\<rparr> = Inr s' \<and>
     fundamentalFrequency s' = f \<and>
     masterGain s' = masterGain s \<and>
     playing s' = playing s \<and>
     length (partials s') = length (partials s) \<and>
     (\<forall>i<length (partials s).
        frequency (partials s' ! i) = f * (real i + 1) \<and>
        amplitude (partials s' ! i) = amplitude (partials s ! i) \<and>
        data (partials s' ! i) =
          calculateSineCurve (f * (real i + 1)) (amplitude (partials s ! i))
            SAMPLE_COUNT SAMPLE_RATE) \<and>
     totalCurve s' = combineCurves (map data (partials s')) (masterGain s) \<and>
     (f = 440 \<and> length (partials s) = HARMONICS_COUNT \<longrightarrow>
        frequency (partials s' ! 0) = 440 \<and>
        frequency (partials s' ! 1) = 880 \<and>
        frequency (partials s' ! 12) = 5720)"
proof -
  let ?s' = "changeFundamentalFrequency s f"
  have red: "harmonicsReducer (Some s)
      \<lparr>type = CHANGE_FUNDAMENTAL_FREQUENCY, payload = NumberPayload f\<rparr> = Inr ?s'"
    by (simp add: harmonicsReducer_def tag_defs)
  have ps: "partials ?s' = setPartialFrequencies (partials s) f"
    by (simp add: changeFundamentalFrequency_def updateTotalCurve_def)
  have flds: "fundamentalFrequency ?s' = f" "masterGain ?s' = masterGain s"
    "playing ?s' = playing s"
    "totalCurve ?s' = combineCurves (map data (partials ?s')) (masterGain s)"
    by (simp_all add: changeFundamentalFrequency_def updateTotalCurve_def)
  have len: "length (partials ?s') = length (partials s)"
    by (simp add: ps length_setPartialFrequencies)
  have each: "frequency (partials ?s' ! i) = f * (real i + 1) \<and>
        amplitude (partials ?s' ! i) = amplitude (partials s ! i) \<and>
        data (partials ?s' ! i) =
          calculateSineCurve (f * (real i + 1)) (amplitude (partials s ! i))
            SAMPLE_COUNT SAMPLE_RATE" if "i < length (partials s)" for i
    by (simp add: ps nth_setPartialFrequencies [OF that] updateCurve_def)
  have scen: "frequency (partials ?s' ! 0) = 440 \<and>
        frequency (partials ?s' ! 1) = 880 \<and>
        frequency (partials ?s' ! 12) = 5720"
    if "f = 440" and "length (partials s) = HARMONICS_COUNT"
  proof -
    from that(2) have "0 < length (partials s)" "1 < length (partials s)"
      "12 < length (partials s)"
      by (simp_all add: HARMONICS_COUNT_def)
    from this [THEN each] that(1) show ?thesis by simp
  qed
  from red flds len each scen show ?thesis by blast
qed

text \<open>
  On the initial state with \<open>f = 440\<close>.
\<close>

theorem changeFundamentalFrequency_retunes_witness:
  "length (partials makeInitialState) = HARMONICS_COUNT \<and>
   (\<exists>s'. harmonicsReducer (Some makeInitialState)
           \<lparr>type = CHANGE_FUNDAMENTAL_FREQUENCY, payload = NumberPayload 440\<rparr> = Inr s' \<and>
      fundamentalFrequency s' = 440 \<and>
      frequency (partials s' ! 0) = 440 \<and>
      frequency (partials s' ! 1) = 880 \<and>
      frequency (partials s' ! 12) = 5720 \<and>
      amplitude (partials s' ! 0) = amplitude (partials makeInitialState ! 0))"
proof -
  have len: "length (partials makeInitialState) = HARMONICS_COUNT"
    by (simp add: length_partials_initial HARMONICS_COUNT_def)
  then have "0 < length (partials makeInitialState)"
    by (simp add: HARMONICS_COUNT_def)
  with len changeFundamentalFrequency_retunes [of makeInitialState 440] show ?thesis
    by fastforce
qed

subsection \<open>An amplitude change with an index out of range\<close>

text \<open>
  C4, as the code behaves: the reducer has no range check and no error of the kind
  IndexOutOfRange. On a state with \<open>n\<close> partials, CHANGE_AMPLITUDE with an index
  \<open>k \<ge> n\<close> or \<open>k < -n\<close> throws a TypeError, since the updater is applied to an entry
  that is not set; with \<open>-n \<le> k < 0\<close> the index counts back from the end of the list,
  and the mutation is the one with the index \<open>n + k\<close>: it returns a state.
\<close>

theorem changeAmplitude_out_of_range:
  "(k < - int (length (partials s)) \<or> int (length (partials s)) \<le> k \<longrightarrow>
      harmonicsReducer (Some s) \<lparr>type = CHANGE_AMPLITUDE, payload = AmplitudePayload k a\<rparr>
        = Inl TypeError) \<and>
   (- int (length (partials s)) \<le> k \<and> k < 0 \<longrightarrow>
      harmonicsReducer (Some s) \<lparr>type = CHANGE_AMPLITUDE, payload = AmplitudePayload k a\<rparr>
        = harmonicsReducer (Some s)
            \<lparr>type = CHANGE_AMPLITUDE,
             payload = AmplitudePayload (int (length (partials s)) + k) a\<rparr> \<and>
      \<not> isl (harmonicsReducer (Some s)
               \<lparr>type = CHANGE_AMPLITUDE, payload = AmplitudePayload k a\<rparr>))"
proof (intro conjI impI)
  assume "k < - int (length (partials s)) \<or> int (length (partials s)) \<le> k"
  then have "List_get (partials s) k = None"
    by (rule List_get_out_of_range)
  then show "harmonicsReducer (Some s)
      \<lparr>type = CHANGE_AMPLITUDE, payload = AmplitudePayload k a\<rparr> = Inl TypeError"
    by (simp add: harmonicsReducer_def tag_defs changeAmplitude_def)
next
  assume r: "- int (length (partials s)) \<le> k \<and> k < 0"
  then have w: "changeAmplitude s k a = changeAmplitude s (int (length (partials s)) + k) a"
    by (simp add: changeAmplitude_wraps)
  then show "harmonicsReducer (Some s)
      \<lparr>type = CHANGE_AMPLITUDE, payload = AmplitudePayload k a\<rparr>
        = harmonicsReducer (Some s)
            \<lparr>type = CHANGE_AMPLITUDE,
             payload = AmplitudePayload (int (length (partials s)) + k) a\<rparr>"
    by (simp add: harmonicsReducer_def tag_defs)
  from r have "0 \<le> int (length (partials s)) + k"
    "int (length (partials s)) + k < int (length (partials s))"
    by simp_all
  then have "\<not> isl (changeAmplitude s (int (length (partials s)) + k) a)"
    by (simp add: changeAmplitude_in_range)
  with w show "\<not> isl (harmonicsReducer (Some s)
               \<lparr>type = CHANGE_AMPLITUDE, payload = AmplitudePayload k a\<rparr>)"
    by (simp add: harmonicsReducer_def tag_defs)
qed

text \<open>
  On the initial state: the index 13 throws, the index -13 acts on the partial 0.
\<close>

theorem changeAmplitude_out_of_range_witness:
  "((13::int) < - int (length (partials makeInitialState)) \<or>
      int (length (partials makeInitialState)) \<le> 13) \<and>
   harmonicsReducer (Some makeInitialState)
     \<lparr>type = CHANGE_AMPLITUDE, payload = AmplitudePayload 13 1\<rparr> = Inl TypeError \<and>
   (- int (length (partials makeInitialState)) \<le> - 13 \<and> (- 13::int) < 0) \<and>
   harmonicsReducer (Some makeInitialState)
     \<lparr>type = CHANGE_AMPLITUDE, payload = AmplitudePayload (- 13) 1\<rparr> =
   harmonicsReducer (Some makeInitialState)
     \<lparr>type = CHANGE_AMPLITUDE, payload = AmplitudePayload 0 1\<rparr>"
proof -
  have h1: "(13::int) < - int (length (partials makeInitialState)) \<or>
      int (length (partials makeInitialState)) \<le> 13"
    by (simp add: length_partials_initial)
  have h2: "- int (length (partials makeInitialState)) \<le> - 13 \<and> (- 13::int) < 0"
    by (simp add: length_partials_initial)
  have z: "int (length (partials makeInitialState)) + - 13 = 0"
    by (simp add: length_partials_initial)
  from changeAmplitude_out_of_range [of 13 makeInitialState 1] h1
  have a: "harmonicsReducer (Some makeInitialState)
     \<lparr>type = CHANGE_AMPLITUDE, payload = AmplitudePayload 13 1\<rparr> = Inl TypeError"
    by blast
  from changeAmplitude_out_of_range [of "- 13" makeInitialState 1] h2
  have "harmonicsReducer (Some makeInitialState)
     \<lparr>type = CHANGE_AMPLITUDE, payload = AmplitudePayload (- 13) 1\<rparr> =
   harmonicsReducer (Some makeInitialState)
     \<lparr>type = CHANGE_AMPLITUDE,
      payload = AmplitudePayload (int (length (partials makeInitialState)) + - 13) 1\<rparr>"
    by blast
  then have b: "harmonicsReducer (Some makeInitialState)
     \<lparr>type = CHANGE_AMPLITUDE, payload = AmplitudePayload (- 13) 1\<rparr> =
   harmonicsReducer (Some makeInitialState)
     \<lparr>type = CHANGE_AMPLITUDE, payload = AmplitudePayload 0 1\<rparr>"
    unfolding z .
  from h1 a h2 b show ?thesis by blast
qed

text \<open>
  The index -1 lies outside \<open>[0, 13)\<close>, yet on the initial state the reducer returns a
  state and no error: the amplitude of the last partial, 0 before, is 1/2 after.
\<close>

theorem changeAmplitude_negative_index_counterexample:
  "\<not> isl (harmonicsReducer (Some makeInitialState)
            \<lparr>type = CHANGE_AMPLITUDE, payload = AmplitudePayload (- 1) (1 / 2)\<rparr>) \<and>
   amplitude (partials makeInitialState ! 12) = 0 \<and>
   amplitude (partials (projr (harmonicsReducer (Some makeInitialState)
            \<lparr>type = CHANGE_AMPLITUDE, payload = AmplitudePayload (- 1) (1 / 2)\<rparr>)) ! 12) = 1 / 2"
proof -
  have get: "List_get (partials makeInitialState) (- 1) = Some (partials makeInitialState ! 12)"
    by (simp add: List_get_def wrapIndex_def length_partials_initial)
  have wrap: "nat (wrapIndex (partials makeInitialState) (- 1)) = 12"
    by (simp add: wrapIndex_def length_partials_initial)
  have red: "harmonicsReducer (Some makeInitialState)
       \<lparr>type = CHANGE_AMPLITUDE, payload = AmplitudePayload (- 1) (1 / 2)\<rparr> =
     Inr (updateTotalCurve
            (makeInitialState\<lparr>partials := (partials makeInitialState)[12 :=
                changeAmplitudeForPartial (partials makeInitialState ! 12) (1 / 2)]\<rparr>))"
    by (simp add: harmonicsReducer_def tag_defs changeAmplitude_def get wrap)
  have old: "amplitude (partials makeInitialState ! 12) = 0"
    by (simp add: nth_partials_initial updateCurve_def makePartial_def partialFactory_def)
  show ?thesis
    unfolding red using old
    by (simp add: updateTotalCurve_def length_partials_initial changeAmplitudeForPartial_def
        updateCurve_def)
qed

subsection \<open>An amplitude change with an index in range\<close>

text \<open>
  C5: CHANGE_AMPLITUDE with an index \<open>k\<close> in range and the amplitude \<open>a\<close> changes the
  partial at \<open>k\<close> only: its amplitude is \<open>a\<close>, its frequency is the old one and its data
  is sampled anew at that frequency. Every partial at another index is the old partial,
  \<open>playing\<close>, \<open>masterGain\<close> and \<open>fundamentalFrequency\<close> are unchanged, and
  \<open>totalCurve\<close> is the combiner applied to the data of all partials of the new state and
  the current \<open>masterGain\<close>. The states of the program hold 13 partials, so the range of
  the index is \<open>[0, 13)\<close>.
\<close>

theorem changeAmplitude_frame:
  assumes "0 \<le> k" and "k < int (length (partials s))"
  shows "\<exists>s'. harmonicsReducer (Some s)
            \<lparr>type = CHANGE_AMPLITUDE, payload = AmplitudePayload k a\<rparr> = Inr s' \<and>
     length (partials s') = length (partials s) \<and>
     frequency (partials s' ! nat k) = frequency (partials s ! nat k) \<and>
     amplitude (partials s' ! nat k) = a \<and>
     data (partials s' ! nat k) =
       calculateSineCurve (frequency (partials s ! nat k)) a SAMPLE_COUNT SAMPLE_RATE \<and>
     (\<forall>j<length (partials s). j \<noteq> nat k \<longrightarrow> partials s' ! j = partials s ! j) \<and>
     playing s' = playing s \<and>
     masterGain s' = masterGain s \<and>
     fundamentalFrequency s' = fundamentalFrequency s \<and>
     totalCurve s' = combineCurves (map data (partials s')) (masterGain s)"
proof -
  let ?q = "changeAmplitudeForPartial (partials s ! nat k) a"
  let ?s' = "updateTotalCurve (s\<lparr>partials := (partials s)[nat k := ?q]\<rparr>)"
  from assms have k: "nat k < length (partials s)" by simp
  have red: "harmonicsReducer (Some s)
      \<lparr>type = CHANGE_AMPLITUDE, payload = AmplitudePayload k a\<rparr> = Inr ?s'"
    using assms by (simp add: harmonicsReducer_def tag_defs changeAmplitude_in_range)
  have ps: "partials ?s' = (partials s)[nat k := ?q]"
    by (simp add: updateTotalCurve_def)
  have flds: "playing ?s' = playing s" "masterGain ?s' = masterGain s"
    "fundamentalFrequency ?s' = fundamentalFrequency s"
    "totalCurve ?s' = combineCurves (map data (partials ?s')) (masterGain s)"
    by (simp_all add: updateTotalCurve_def)
  have len: "length (partials ?s') = length (partials s)"
    by (simp add: ps)
  have tgt: "frequency (partials ?s' ! nat k) = frequency (partials s ! nat k)"
    "amplitude (partials ?s' ! nat k) = a"
    "data (partials ?s' ! nat k) =
       calculateSineCurve (frequency (partials s ! nat k)) a SAMPLE_COUNT SAMPLE_RATE"
    unfolding ps using k by (simp_all add: changeAmplitudeForPartial_def updateCurve_def)
  have others: "\<forall>j<length (partials s). j \<noteq> nat k \<longrightarrow> partials ?s' ! j = partials s ! j"
    by (simp add: ps)
  from red len tgt others flds show ?thesis by blast
qed

text \<open>
  On the initial state with the index 2 and the amplitude 0.5.
\<close>

theorem changeAmplitude_frame_witness:
  "(0::int) \<le> 2 \<and> 2 < int (length (partials makeInitialState)) \<and>
   (\<exists>s'. harmonicsReducer (Some makeInitialState)
            \<lparr>type = CHANGE_AMPLITUDE, payload = AmplitudePayload 2 0.5\<rparr> = Inr s' \<and>
      amplitude (partials s' ! 2) = 0.5 \<and>
      partials s' ! 0 = partials makeInitialState ! 0 \<and>
      partials s' ! 12 = partials makeInitialState ! 12 \<and>
      masterGain s' = masterGain makeInitialState)"
proof -
  have h1: "(0::int) \<le> 2" by simp
  have h2: "2 < int (length (partials makeInitialState))"
    by (simp add: length_partials_initial)
  have "(0::nat) < length (partials makeInitialState)" "(0::nat) \<noteq> nat 2"
    "(12::nat) < length (partials makeInitialState)" "(12::nat) \<noteq> nat 2"
    by (simp_all add: length_partials_initial)
  with h1 h2 changeAmplitude_frame [OF h1 h2, of "0.5"] show ?thesis
    by fastforce
qed

subsection \<open>Changing the master gain\<close>

text \<open>
  C6, as the code behaves: CHANGE_MASTER_GAIN with the number \<open>g\<close> sets \<open>masterGain\<close>
  to \<open>g\<close> and leaves the partials, \<open>playing\<close> and \<open>fundamentalFrequency\<close>
  unchanged; \<open>totalCurve\<close> is the combiner applied to the existing data and \<open>g\<close>, so
  each of its samples is \<open>g\<close> times the unscaled sum of the partials' samples. Where the
  old gain is not 0 and the old total curve was the combination under the old gain, the
  sample is the old sample times \<open>g / previousGain\<close>, in real arithmetic.
\<close>

theorem changeMasterGain_frame:
  "\<exists>s'. harmonicsReducer (Some s)
           \<lparr>type = CHANGE_MASTER_GAIN, payload = NumberPayload g\<rparr> = Inr s' \<and>
     masterGain s' = g \<and>
     partials s' = partials s \<and>
     playing s' = playing s \<and>
     fundamentalFrequency s' = fundamentalFrequency s \<and>
     totalCurve s' = combineCurves (map data (partials s)) g \<and>
     (\<forall>i<length (totalCurve s').
        totalCurve s' ! i = g * (\<Sum>curve\<leftarrow>map data (partials s). curve ! i) \<and>
        (masterGain s \<noteq> 0 \<and>
         totalCurve s = combineCurves (map data (partials s)) (masterGain s) \<longrightarrow>
           totalCurve s' ! i = (g / masterGain s) * (totalCurve s ! i)))"
proof -
  let ?s' = "changeMasterGain s g"
  let ?cs = "map data (partials s)"
  have red: "harmonicsReducer (Some s)
      \<lparr>type = CHANGE_MASTER_GAIN, payload = NumberPayload g\<rparr> = Inr ?s'"
    by (simp add: harmonicsReducer_def tag_defs)
  have flds: "masterGain ?s' = g" "partials ?s' = partials s" "playing ?s' = playing s"
    "fundamentalFrequency ?s' = fundamentalFrequency s"
    and tc: "totalCurve ?s' = combineCurves ?cs g"
    by (simp_all add: changeMasterGain_def updateTotalCurve_def)
  have scale: "totalCurve ?s' ! i = g * (\<Sum>curve\<leftarrow>?cs. curve ! i) \<and>
        (masterGain s \<noteq> 0 \<and> totalCurve s = combineCurves ?cs (masterGain s) \<longrightarrow>
           totalCurve ?s' ! i = (g / masterGain s) * (totalCurve s ! i))"
    if "i < length (totalCurve ?s')" for i
  proof -
    from that have i: "i < length (combineCurves ?cs g)" by (simp add: tc)
    then have "totalCurve ?s' ! i = g * (\<Sum>curve\<leftarrow>?cs. curve ! i)"
      unfolding tc by (rule nth_combineCurves)
    moreover have "totalCurve ?s' ! i = (g / masterGain s) * (totalCurve s ! i)"
      if "masterGain s \<noteq> 0" and old: "totalCurve s = combineCurves ?cs (masterGain s)"
      unfolding tc old using i that(1) by (rule combineCurves_rescale)
    ultimately show ?thesis by blast
  qed
  from red flds tc scale show ?thesis by blast
qed

text \<open>
  On the initial state, whose gain is 0.5, with the new gain 0.2, at the sample 1: the old
  sample is not 0, and the new one is 0.2 / 0.5 times the old one.
\<close>

theorem changeMasterGain_frame_witness:
  "masterGain makeInitialState \<noteq> 0 \<and>
   totalCurve makeInitialState =
     combineCurves (map data (partials makeInitialState)) (masterGain makeInitialState) \<and>
   (\<exists>s'. harmonicsReducer (Some makeInitialState)
           \<lparr>type = CHANGE_MASTER_GAIN, payload = NumberPayload 0.2\<rparr> = Inr s' \<and>
      masterGain s' = 0.2 \<and>
      partials s' = partials makeInitialState \<and>
      1 < length (totalCurve s') \<and>
      totalCurve makeInitialState ! 1 \<noteq> 0 \<and>
      totalCurve s' ! 1 = (0.2 / 0.5) * (totalCurve makeInitialState ! 1) \<and>
      totalCurve s' ! 1 = 0.2 * sin (2 * pi * 261.63 / 44100))"
proof -
  have g0: "masterGain makeInitialState = 0.5"
    by (simp add: makeInitialState_def Let_def updateTotalCurve_def appStateFactory_def)
  have nz: "masterGain makeInitialState \<noteq> 0"
    by (simp add: g0)
  have old: "totalCurve makeInitialState =
     combineCurves (map data (partials makeInitialState)) (masterGain makeInitialState)"
    using consistent_initial by (simp add: consistent_def)
  from changeMasterGain_frame [of makeInitialState "0.2"] obtain s' where
    s': "harmonicsReducer (Some makeInitialState)
           \<lparr>type = CHANGE_MASTER_GAIN, payload = NumberPayload 0.2\<rparr> = Inr s'"
      "masterGain s' = 0.2" "partials s' = partials makeInitialState"
      "totalCurve s' = combineCurves (map data (partials makeInitialState)) 0.2"
    and sc: "\<forall>i<length (totalCurve s').
        masterGain makeInitialState \<noteq> 0 \<and>
         totalCurve makeInitialState =
           combineCurves (map data (partials makeInitialState)) (masterGain makeInitialState) \<longrightarrow>
           totalCurve s' ! i = (0.2 / masterGain makeInitialState) * (totalCurve makeInitialState ! i)"
    by blast
  have len: "1 < length (totalCurve s')"
    unfolding s'(4) length_totalCurve_gain by (simp add: SAMPLE_COUNT_def)
  from sc len nz old
  have "totalCurve s' ! 1 =
      (0.2 / masterGain makeInitialState) * (totalCurve makeInitialState ! 1)"
    by blast
  then have scaled: "totalCurve s' ! 1 = (0.2 / 0.5) * (totalCurve makeInitialState ! 1)"
    unfolding g0 .
  have old1: "totalCurve makeInitialState ! 1 = 0.5 * sin (2 * pi * 261.63 / 44100)"
    using totalCurve_initial_second_sample by (simp add: SAMPLE_RATE_def)
  have "0 < sin (2 * pi * 261.63 / 44100)"
    using first_sample_positive by (simp add: SAMPLE_RATE_def)
  with old1 have ne: "totalCurve makeInitialState ! 1 \<noteq> 0"
    by simp
  from scaled old1 have val: "totalCurve s' ! 1 = 0.2 * sin (2 * pi * 261.63 / 44100)"
    by simp
  from nz old s' len ne scaled val show ?thesis by blast
qed

text \<open>
  After a gain of 0 every sample of the total curve is 0. A gain of 1 then gives the
  sample 1 a value other than 0: no factor takes the old sample to the new one.
\<close>

theorem changeMasterGain_zero_gain_counterexample:
  "reduceAll makeInitialState [\<lparr>type = CHANGE_MASTER_GAIN, payload = NumberPayload 0\<rparr>]
     = Inr mutedState \<and>
   masterGain mutedState = 0 \<and>
   totalCurve mutedState = combineCurves (map data (partials mutedState)) (masterGain mutedState) \<and>
   harmonicsReducer (Some mutedState) \<lparr>type = CHANGE_MASTER_GAIN, payload = NumberPayload 1\<rparr>
     = Inr (changeMasterGain mutedState 1) \<and>
   1 < length (totalCurve (changeMasterGain mutedState 1)) \<and>
   totalCurve mutedState ! 1 = 0 \<and>
   totalCurve (changeMasterGain mutedState 1) ! 1 \<noteq> 0 \<and>
   totalCurve (changeMasterGain mutedState 1) ! 1
     \<noteq> (1 / masterGain mutedState) * (totalCurve mutedState ! 1)"
proof -
  let ?cs = "map data (partials makeInitialState)"
  have run: "reduceAll makeInitialState
      [\<lparr>type = CHANGE_MASTER_GAIN, payload = NumberPayload 0\<rparr>] = Inr mutedState"
    by (simp add: harmonicsReducer_def tag_defs mutedState_def)
  have gain: "masterGain mutedState = 0"
    and ps: "partials mutedState = partials makeInitialState"
    and old: "totalCurve mutedState = combineCurves ?cs 0"
    by (simp_all add: mutedState_def changeMasterGain_def updateTotalCurve_def)
  have red: "harmonicsReducer (Some mutedState)
      \<lparr>type = CHANGE_MASTER_GAIN, payload = NumberPayload 1\<rparr> = Inr (changeMasterGain mutedState 1)"
    by (simp add: harmonicsReducer_def tag_defs)
  have new: "totalCurve (changeMasterGain mutedState 1) = combineCurves ?cs 1"
    by (simp add: changeMasterGain_def updateTotalCurve_def ps)
  have len: "1 < length (combineCurves ?cs g)" for g
    unfolding length_totalCurve_gain by (simp add: SAMPLE_COUNT_def)
  have sum: "(\<Sum>curve\<leftarrow>?cs. curve ! 1) = sin (2 * pi * 261.63 * real (1::nat) / SAMPLE_RATE)"
    by (rule unscaled_sum_initial) (simp add: SAMPLE_COUNT_def)
  have old1: "totalCurve mutedState ! 1 = 0"
    unfolding old using nth_combineCurves [OF len, of 0] by simp
  have "totalCurve (changeMasterGain mutedState 1) ! 1 =
      sin (2 * pi * 261.63 * real (1::nat) / SAMPLE_RATE)"
    unfolding new using nth_combineCurves [OF len, of 1] sum by simp
  with first_sample_positive have new1: "totalCurve (changeMasterGain mutedState 1) ! 1 \<noteq> 0"
    by simp
  have c: "totalCurve mutedState =
      combineCurves (map data (partials mutedState)) (masterGain mutedState)"
    by (simp add: old ps gain)
  have l: "1 < length (totalCurve (changeMasterGain mutedState 1))"
    unfolding new by (rule len)
  from new1 old1 have "totalCurve (changeMasterGain mutedState 1) ! 1
     \<noteq> (1 / masterGain mutedState) * (totalCurve mutedState ! 1)"
    by simp
  with run gain c red l old1 new1 show ?thesis by blast
qed

subsection \<open>Start and stop\<close>

text \<open>
  C7: START sets \<open>playing\<close> to true and STOP sets it to false, whatever the payload;
  \<open>masterGain\<close>, \<open>fundamentalFrequency\<close>, the partials and \<open>totalCurve\<close> are the
  fields of the old state, and no curve is computed.
\<close>

theorem start_stop_only_playing:
  "harmonicsReducer (Some s) \<lparr>type = START, payload = p\<rparr> = Inr (s\<lparr>playing := True\<rparr>) \<and>
   harmonicsReducer (Some s) \<lparr>type = STOP, payload = p\<rparr> = Inr (s\<lparr>playing := False\<rparr>)"
  by (simp add: harmonicsReducer_def setPlayState_def tag_defs)

subsection \<open>Unrecognized mutations\<close>

text \<open>
  C8: a mutation whose tag is none of START, STOP, CHANGE_AMPLITUDE,
  CHANGE_FUNDAMENTAL_FREQUENCY and CHANGE_MASTER_GAIN, whatever its payload, is the
  identity transition: the reducer returns the state it was given and throws nothing.
\<close>

theorem unrecognized_is_identity:
  assumes "type act \<notin> {START, STOP, CHANGE_AMPLITUDE, CHANGE_FUNDAMENTAL_FREQUENCY, CHANGE_MASTER_GAIN}"
  shows "harmonicsReducer (Some s) act = Inr s"
  using assms by (simp add: harmonicsReducer_def)

text \<open>
  The tag RESET on the initial state.
\<close>

theorem unrecognized_is_identity_witness:
  "type \<lparr>type = ''RESET'', payload = NoPayload\<rparr>
     \<notin> {START, STOP, CHANGE_AMPLITUDE, CHANGE_FUNDAMENTAL_FREQUENCY, CHANGE_MASTER_GAIN} \<and>
   harmonicsReducer (Some makeInitialState) \<lparr>type = ''RESET'', payload = NoPayload\<rparr>
     = Inr makeInitialState"
proof -
  have h: "type \<lparr>type = ''RESET'', payload = NoPayload\<rparr>
     \<notin> {START, STOP, CHANGE_AMPLITUDE, CHANGE_FUNDAMENTAL_FREQUENCY, CHANGE_MASTER_GAIN}"
    by (simp add: tag_defs)
  from h unrecognized_is_identity [OF h, of makeInitialState] show ?thesis by simp
qed

subsection \<open>Idempotence of an amplitude change\<close>

text \<open>
  C9: on a state reached from the initial state, CHANGE_AMPLITUDE with an index \<open>k\<close> in
  range and the amplitude the partial at \<open>k\<close> already has returns a state whose
  \<open>totalCurve\<close> and whose data of the partial at \<open>k\<close> equal those of the old state.
  Numbers are reals here, so the curves are equal sample by sample.
\<close>

theorem same_amplitude_is_idempotent:
  assumes "reduceAll makeInitialState acts = Inr s"
    and "0 \<le> k" and "k < int HARMONICS_COUNT"
  shows "\<exists>s'. harmonicsReducer (Some s)
            \<lparr>type = CHANGE_AMPLITUDE,
             payload = AmplitudePayload k (amplitude (partials s ! nat k))\<rparr> = Inr s' \<and>
     totalCurve s' = totalCurve s \<and>
     data (partials s' ! nat k) = data (partials s ! nat k)"
proof -
  let ?p = "partials s ! nat k"
  from assms(1) have c: "consistent s"
    using consistent_initial reduceAll_consistent by blast
  then have len: "length (partials s) = HARMONICS_COUNT"
    by (simp add: consistent_def)
  with assms have k: "nat k < length (partials s)" by simp
  with c have "data ?p = calculateSineCurve (frequency ?p) (amplitude ?p) SAMPLE_COUNT SAMPLE_RATE"
    unfolding consistent_def by blast
  then have "changeAmplitudeForPartial ?p (amplitude ?p) = ?p"
    by (simp add: changeAmplitudeForPartial_def updateCurve_def)
  then have "(partials s)[nat k := changeAmplitudeForPartial ?p (amplitude ?p)] = partials s"
    by simp
  moreover from c have "totalCurve s = combineCurves (map data (partials s)) (masterGain s)"
    by (simp add: consistent_def)
  ultimately have "changeAmplitude s k (amplitude ?p) = Inr s"
    using assms(2,3) len by (simp add: changeAmplitude_in_range updateTotalCurve_def)
  then show ?thesis
    by (simp add: harmonicsReducer_def tag_defs)
qed

text \<open>
  After START, with the index 3.
\<close>

theorem same_amplitude_is_idempotent_witness:
  "reduceAll makeInitialState [\<lparr>type = START, payload = NoPayload\<rparr>]
     = Inr (setPlayState makeInitialState True) \<and>
   (0::int) \<le> 3 \<and> 3 < int HARMONICS_COUNT \<and>
   (\<exists>s'. harmonicsReducer (Some (setPlayState makeInitialState True))
            \<lparr>type = CHANGE_AMPLITUDE,
             payload = AmplitudePayload 3
               (amplitude (partials (setPlayState makeInitialState True) ! nat 3))\<rparr> = Inr s' \<and>
      totalCurve s' = totalCurve (setPlayState makeInitialState True) \<and>
      data (partials s' ! nat 3) = data (partials (setPlayState makeInitialState True) ! nat 3))"
proof -
  have h1: "reduceAll makeInitialState [\<lparr>type = START, payload = NoPayload\<rparr>]
     = Inr (setPlayState makeInitialState True)"
    by (simp add: harmonicsReducer_def)
  have h2: "(0::int) \<le> 3" by simp
  have h3: "3 < int HARMONICS_COUNT" by (simp add: HARMONICS_COUNT_def)
  from h1 h2 h3 same_amplitude_is_idempotent [OF h1 h2 h3] show ?thesis by blast
qed

subsection \<open>The preset action\<close>

text \<open>
  C10: the tag SWITCH_TO_PRESET is defined beside the others, but the \<open>switch\<close> of the
  reducer has no case for it: a mutation with this tag reaches the default branch and the
  state is returned unchanged.
\<close>

theorem switch_to_preset_falls_through:
  "harmonicsReducer (Some s) \<lparr>type = SWITCH_TO_PRESET, payload = p\<rparr> = Inr s"
  by (simp add: harmonicsReducer_def tag_defs)

end
